theory Spec2Isabelle
  imports Main
begin

section \<open>JavaScript values\<close>

text \<open>
  The guards of \<^verbatim>\<open>src/utils/Middlewares.js\<close> pass plain JavaScript values around:
  request bodies, token payloads, thrown exceptions, the \<^verbatim>\<open>extraData\<close> of an error
  descriptor. They are modelled by one datatype. Numbers are the integers and NaN;
  an object is the list of its own properties (an \<^verbatim>\<open>Error\<close> instance is the object
  with its \<^verbatim>\<open>message\<close> and \<^verbatim>\<open>stack\<close>); functions are not values of the model.
\<close>

datatype jsval =
    JUndefined
  | JNull
  | JBool bool
  | JNum int
  | JNaN
  | JStr string
  | JArr "jsval list"
  | JObj "(string \<times> jsval) list"

text \<open>ToBoolean: what \<^verbatim>\<open>if (v)\<close>, \<^verbatim>\<open>!v\<close> and \<^verbatim>\<open>v || w\<close> test.\<close>

fun truthy :: "jsval \<Rightarrow> bool" where
  "truthy JUndefined = False"
| "truthy JNull = False"
| "truthy (JBool b) = b"
| "truthy (JNum n) = (n \<noteq> 0)"
| "truthy JNaN = False"
| "truthy (JStr s) = (s \<noteq> [])"
| "truthy (JArr xs) = True"
| "truthy (JObj kvs) = True"

text \<open>
  A thrown value is any JavaScript value, so a computation that can throw returns
  \<open>jsval + 'a\<close>, \<open>Inl\<close> the thrown value. A \<^verbatim>\<open>TypeError\<close> is the object the engine
  builds; its message text is V8's. Of its \<^verbatim>\<open>stack\<close> only the first line is modelled:
  the call frames that follow it are left out, and no statement below depends on them.
\<close>

definition TypeError :: "string \<Rightarrow> jsval" where
  "TypeError msg = JObj [(''message'', JStr msg), (''stack'', JStr (''TypeError: '' @ msg))]"

fun typeof_nullish :: "jsval \<Rightarrow> string" where
  "typeof_nullish JNull = ''null''"
| "typeof_nullish v = ''undefined''"

text \<open>
  Property read \<^verbatim>\<open>v.k\<close>: throws on \<^verbatim>\<open>undefined\<close> and \<^verbatim>\<open>null\<close>, reads an own property
  of an object, the \<^verbatim>\<open>length\<close> of a string or an array, and is \<^verbatim>\<open>undefined\<close> otherwise.
\<close>

fun get_prop :: "jsval \<Rightarrow> string \<Rightarrow> jsval + jsval" where
  "get_prop JUndefined k =
     Inl (TypeError (''Cannot read properties of undefined (reading '' @ [CHR 0x27] @ k @ [CHR 0x27] @ '')''))"
| "get_prop JNull k =
     Inl (TypeError (''Cannot read properties of null (reading '' @ [CHR 0x27] @ k @ [CHR 0x27] @ '')''))"
| "get_prop (JObj kvs) k = Inr (case map_of kvs k of None \<Rightarrow> JUndefined | Some v \<Rightarrow> v)"
| "get_prop (JArr xs) k = Inr (if k = ''length'' then JNum (int (length xs)) else JUndefined)"
| "get_prop (JStr s) k = Inr (if k = ''length'' then JNum (int (length s)) else JUndefined)"
| "get_prop v k = Inr JUndefined"

text \<open>Decimal text of a number, as a template literal prints it.\<close>

definition digit_char :: "nat \<Rightarrow> char" where
  "digit_char n = ''0123456789'' ! (n mod 10)"

function show_nat :: "nat \<Rightarrow> string" where
  "show_nat n = (if n < 10 then [digit_char n] else show_nat (n div 10) @ [digit_char n])"
  by pat_completeness auto
termination
  by (relation "measure (\<lambda>n. n)") auto

declare show_nat.simps [simp del]

definition show_int :: "int \<Rightarrow> string" where
  "show_int i = (if i < 0 then CHR ''-'' # show_nat (nat (- i)) else show_nat (nat i))"

text \<open>Indexed read \<^verbatim>\<open>v[i]\<close>, with the same throw on \<^verbatim>\<open>undefined\<close> and \<^verbatim>\<open>null\<close>.\<close>

fun get_index :: "jsval \<Rightarrow> nat \<Rightarrow> jsval + jsval" where
  "get_index JUndefined i =
     Inl (TypeError (''Cannot read properties of undefined (reading '' @ [CHR 0x27] @ show_nat i @ [CHR 0x27] @ '')''))"
| "get_index JNull i =
     Inl (TypeError (''Cannot read properties of null (reading '' @ [CHR 0x27] @ show_nat i @ [CHR 0x27] @ '')''))"
| "get_index (JArr xs) i = Inr (if i < length xs then xs ! i else JUndefined)"
| "get_index (JStr s) i = Inr (if i < length s then JStr [s ! i] else JUndefined)"
| "get_index (JObj kvs) i = Inr (case map_of kvs (show_nat i) of None \<Rightarrow> JUndefined | Some v \<Rightarrow> v)"
| "get_index v i = Inr JUndefined"

text \<open>
  The call \<^verbatim>\<open>v.toLowerCase()\<close> on an arbitrary value: only a string has the method.
  \<^verbatim>\<open>String.prototype.toLowerCase\<close> is the engine's; it is the parameter \<open>lower\<close>, and
  nothing is assumed about it.
\<close>

fun call_toLowerCase :: "(string \<Rightarrow> string) \<Rightarrow> string \<Rightarrow> jsval \<Rightarrow> jsval + string" where
  "call_toLowerCase lower nm (JStr s) = Inr (lower s)"
| "call_toLowerCase lower nm JUndefined =
     Inl (TypeError (''Cannot read properties of undefined (reading '' @ [CHR 0x27] @ ''toLowerCase'' @ [CHR 0x27] @ '')''))"
| "call_toLowerCase lower nm JNull =
     Inl (TypeError (''Cannot read properties of null (reading '' @ [CHR 0x27] @ ''toLowerCase'' @ [CHR 0x27] @ '')''))"
| "call_toLowerCase lower nm v = Inl (TypeError (nm @ ''.toLowerCase is not a function''))"

text \<open>\<^verbatim>\<open>String.prototype.split\<close> with a one-character separator.\<close>

fun split_on :: "char \<Rightarrow> string \<Rightarrow> string list" where
  "split_on c [] = [[]]"
| "split_on c (x # xs) =
     (if x = c then [] # split_on c xs
      else (case split_on c xs of [] \<Rightarrow> [[x]] | w # ws \<Rightarrow> (x # w) # ws))"

definition nth_opt :: "'a list \<Rightarrow> nat \<Rightarrow> 'a option" where
  "nth_opt xs i = (if i < length xs then Some (xs ! i) else None)"

section \<open>Requests, error descriptors, responses\<close>

text \<open>
  A user record and a verification-token record of the store. \<^verbatim>\<open>isVerified\<close> is kept
  as a JavaScript value: the guard compares it with \<^verbatim>\<open>=== false\<close>.
\<close>

record user =
  sys_id :: string
  githubId :: string
  email :: string
  isVerified :: jsval

record verificationToken =
  userId :: string
  expiresAt :: int

text \<open>
  The request context. \<^verbatim>\<open>cookies\<close> is \<open>None\<close> when no cookie parser has set it;
  \<^verbatim>\<open>authorization\<close> is the value of \<^verbatim>\<open>req.header("Authorization")\<close>; \<^verbatim>\<open>user\<close> is
  \<^verbatim>\<open>req.user\<close>, \<open>None\<close> while it is \<^verbatim>\<open>undefined\<close>.
\<close>

record request =
  body :: jsval
  cookies :: "(string \<times> string) list option"
  authorization :: "string option"
  originalUrl :: string
  user :: "user option"

text \<open>
  The object a guard hands to \<^verbatim>\<open>next\<close>. A field the object literal does not write is
  \<open>None\<close> or \<^verbatim>\<open>undefined\<close>. Note the two distinct keys \<^verbatim>\<open>status\<close> and \<^verbatim>\<open>statusCode\<close>.
\<close>

record descriptor =
  path :: "string option"
  status :: "int option"
  statusCode :: "int option"
  message :: jsval
  extraData :: jsval
  stack :: jsval

definition no_descriptor :: descriptor where
  "no_descriptor =
     \<lparr>path = None, status = None, statusCode = None, message = JUndefined,
      extraData = JUndefined, stack = JUndefined\<rparr>"

text \<open>
  The body \<^verbatim>\<open>error\<close> that \<^verbatim>\<open>errorMiddleware\<close> builds, and the envelope around it.

  Modelled from the spec: the class \<^verbatim>\<open>ApiError\<close> of \<^verbatim>\<open>./ApiError\<close>, which is not among the
  sources. The spec gives the envelope as
  \<^verbatim>\<open>{ statusCode, message, error: { message, extraData? }, stack }\<close>; the record keeps the
  four constructor arguments in that shape.
\<close>

record errorBody =
  eb_message :: jsval
  eb_extraData :: "jsval option"

record ApiError =
  ae_statusCode :: int
  ae_message :: jsval
  ae_error :: errorBody
  ae_stack :: jsval

datatype responseBody = ApiErrorBody ApiError | JsonBody jsval

record response =
  rs_status :: int
  rs_headers :: "string list"
  rs_body :: responseBody

text \<open>
  What one guard does with a request: call \<^verbatim>\<open>next()\<close>, call \<^verbatim>\<open>next(err)\<close>, write the
  response itself, or let an exception escape (then neither \<^verbatim>\<open>next\<close> is called nor a
  response written).
\<close>

datatype outcome =
    Continue request
  | Fail descriptor
  | Respond response
  | Escaped jsval

section \<open>The guards\<close>

subsection \<open>validateSchema\<close>

text \<open>
  A schema is its \<^verbatim>\<open>parseAsync\<close>: the parsed value, or the thrown error. The schema
  engine throws an error whose \<^verbatim>\<open>errors\<close> is the list of issues.
\<close>

type_synonym schema = "jsval \<Rightarrow> jsval + jsval"

definition validateSchema :: "schema \<Rightarrow> request \<Rightarrow> outcome" where
  "validateSchema schema req =
     (case schema (body req) of
        Inr parsedBody \<Rightarrow> Continue (req\<lparr>body := parsedBody\<rparr>)
      | Inl err \<Rightarrow>
          (case get_prop err ''errors'' of
             Inl e \<Rightarrow> Escaped e
           | Inr errors \<Rightarrow>
               (case get_index errors 0 of
                  Inl e \<Rightarrow> Escaped e
                | Inr first \<Rightarrow>
                    (case get_prop first ''message'' of
                       Inl e \<Rightarrow> Escaped e
                     | Inr msg \<Rightarrow>
                         Fail (no_descriptor
                           \<lparr>path := Some (originalUrl req @ ''/middleware/validate''),
                            status := Some 422,
                            message := msg,
                            extraData := errors\<rparr>)))))"

subsection \<open>errorMiddleware\<close>

text \<open>
  \<^verbatim>\<open>merge(error, { extraData: err.extraData })\<close> of lodash, on an \<^verbatim>\<open>error\<close> that has
  only the key \<^verbatim>\<open>message\<close>: the key \<^verbatim>\<open>extraData\<close> is new, and merge writes a deep copy
  of a plain object or array (the value itself otherwise) under it. Values of the
  model have no identity, so the copy is the value.
\<close>

definition merge_extraData :: "errorBody \<Rightarrow> jsval \<Rightarrow> errorBody" where
  "merge_extraData error v = error\<lparr>eb_extraData := Some v\<rparr>"

definition errorMiddleware :: "descriptor \<Rightarrow> response" where
  "errorMiddleware err =
     (let error = \<lparr>eb_message = (if truthy (message err) then message err
                                   else JStr ''Something went wrong''),
                   eb_extraData = None\<rparr>;
          error = (if truthy (extraData err) then merge_extraData error (extraData err)
                   else error);
          err = (if \<not> (case statusCode err of None \<Rightarrow> False | Some c \<Rightarrow> c \<noteq> 0)
                 then err\<lparr>statusCode := Some 400\<rparr> else err);
          code = (case statusCode err of None \<Rightarrow> 400 | Some c \<Rightarrow> c)
      in \<lparr>rs_status = code, rs_headers = [],
          rs_body = ApiErrorBody
            \<lparr>ae_statusCode = code, ae_message = message err, ae_error = error,
             ae_stack = stack err\<rparr>\<rparr>)"

text \<open>
  The response the client gets for an outcome: the host framework routes \<^verbatim>\<open>next(err)\<close>
  to \<^verbatim>\<open>errorMiddleware\<close>; a response a guard wrote itself stands; there is none yet
  when the chain continues, and none at all when an exception escaped.
\<close>

fun rendered :: "outcome \<Rightarrow> response option" where
  "rendered (Fail d) = Some (errorMiddleware d)"
| "rendered (Respond r) = Some r"
| "rendered (Continue req) = None"
| "rendered (Escaped e) = None"

subsection \<open>The collaborators\<close>

text \<open>
  The external services the guards call, each a function that returns or throws:
  \<^verbatim>\<open>jwt.verify(token, process.env.JWT_SECRET)\<close>, the two \<^verbatim>\<open>prisma.users.findUnique\<close>
  queries (by \<^verbatim>\<open>githubId\<close> and by \<^verbatim>\<open>email\<close>; \<open>None\<close> is the \<^verbatim>\<open>null\<close> of a miss) and
  \<^verbatim>\<open>prisma.verificationTokens.findUnique\<close> by \<^verbatim>\<open>userId\<close>. \<^verbatim>\<open>tzOffset\<close> is the local
  time zone's offset from UTC in milliseconds, which \<^verbatim>\<open>getMinutes\<close> and \<^verbatim>\<open>getSeconds\<close>
  add. \<^verbatim>\<open>toLowerCase\<close> is the engine's \<^verbatim>\<open>String.prototype.toLowerCase\<close>, which lower-cases
  every cased letter; it is taken as given. Logging has no effect on the outcome and
  is left out.
\<close>

record env =
  jwt_verify :: "string \<Rightarrow> jsval + jsval"
  users_by_githubId :: "jsval \<Rightarrow> jsval + user option"
  users_by_email :: "string \<Rightarrow> jsval + user option"
  verificationTokens_by_userId :: "string \<Rightarrow> jsval + verificationToken option"
  tzOffset :: int
  toLowerCase :: "string \<Rightarrow> string"

subsection \<open>verifyJWT\<close>

text \<open>
  \<^verbatim>\<open>req.cookies?.token || req.header("Authorization")?.split(" ")[1]\<close>: the cookie when
  it is a non-empty string, else the second space-separated piece of the header.
\<close>

definition cookie_token :: "request \<Rightarrow> string option" where
  "cookie_token req = (case cookies req of None \<Rightarrow> None | Some cs \<Rightarrow> map_of cs ''token'')"

definition header_token :: "request \<Rightarrow> string option" where
  "header_token req =
     (case authorization req of None \<Rightarrow> None | Some h \<Rightarrow> nth_opt (split_on CHR '' '' h) 1)"

definition select_token :: "request \<Rightarrow> string option" where
  "select_token req =
     (case cookie_token req of
        Some t \<Rightarrow> if t \<noteq> [] then Some t else header_token req
      | None \<Rightarrow> header_token req)"

definition unauthenticated :: "string \<Rightarrow> descriptor" where
  "unauthenticated msg =
     no_descriptor\<lparr>path := Some ''/middleware/verifyJWT'', statusCode := Some 401,
                   message := JStr msg\<rparr>"

text \<open>
  The outer \<^verbatim>\<open>catch (error)\<close> of \<^verbatim>\<open>verifyJWT\<close>; reading \<^verbatim>\<open>error.message\<close> throws again
  when the thrown value is \<^verbatim>\<open>undefined\<close> or \<^verbatim>\<open>null\<close>.
\<close>

definition verifyJWT_catch :: "jsval \<Rightarrow> outcome" where
  "verifyJWT_catch error =
     (case get_prop error ''message'' of
        Inl e \<Rightarrow> Escaped e
      | Inr m \<Rightarrow>
          Fail (no_descriptor\<lparr>path := Some ''/middleware/verifyJWT'', statusCode := Some 500,
                               message := m, extraData := error\<rparr>))"

definition verifyJWT :: "env \<Rightarrow> request \<Rightarrow> outcome" where
  "verifyJWT E req =
     (case select_token req of
        None \<Rightarrow> Fail (unauthenticated ''No token provided'')
      | Some token \<Rightarrow>
          if token = [] then Fail (unauthenticated ''No token provided'')
          else
            (case jwt_verify E token of
               Inl jwtError \<Rightarrow> Fail (unauthenticated ''Invalid token'')
             | Inr payload \<Rightarrow>
                 (case get_prop payload ''id'' of
                    Inl error \<Rightarrow> verifyJWT_catch error
                  | Inr ident \<Rightarrow>
                      if \<not> truthy ident then Fail (unauthenticated ''Invalid token'')
                      else
                        (case users_by_githubId E ident of
                           Inl error \<Rightarrow> verifyJWT_catch error
                         | Inr None \<Rightarrow> Fail (unauthenticated ''User not found'')
                         | Inr (Some u) \<Rightarrow> Continue (req\<lparr>user := Some u\<rparr>)))))"

subsection \<open>isUser\<close>

text \<open>
  The \<^verbatim>\<open>catch (error)\<close> of \<^verbatim>\<open>isUser\<close>: it logs \<^verbatim>\<open>error.stack\<close> first, then builds the
  descriptor with the key \<^verbatim>\<open>status\<close>.
\<close>

definition isUser_catch :: "jsval \<Rightarrow> outcome" where
  "isUser_catch error =
     (case get_prop error ''stack'' of
        Inl e \<Rightarrow> Escaped e
      | Inr st \<Rightarrow>
          (case get_prop error ''message'' of
             Inl e \<Rightarrow> Escaped e
           | Inr m \<Rightarrow>
               Fail (no_descriptor\<lparr>status := Some 400, message := m, extraData := error\<rparr>)))"

text \<open>
  \<^verbatim>\<open>const { email } = req.body\<close>: destructuring \<^verbatim>\<open>undefined\<close> or \<^verbatim>\<open>null\<close> throws.
\<close>

definition destructure_email :: "jsval \<Rightarrow> jsval + jsval" where
  "destructure_email b =
     (if b = JUndefined \<or> b = JNull
      then Inl (TypeError (''Cannot destructure property '' @ [CHR 0x27] @ ''email'' @ [CHR 0x27]
                  @ '' of '' @ [CHR 0x27] @ ''req.body'' @ [CHR 0x27] @ '' as it is ''
                  @ typeof_nullish b @ ''.''))
      else get_prop b ''email'')"

definition isUser :: "env \<Rightarrow> request \<Rightarrow> outcome" where
  "isUser E req =
     (case destructure_email (body req) of
        Inl error \<Rightarrow> isUser_catch error
      | Inr em \<Rightarrow>
          (case call_toLowerCase (toLowerCase E) ''email'' em of
             Inl error \<Rightarrow> isUser_catch error
           | Inr lowered \<Rightarrow>
               (case users_by_email E lowered of
                  Inl error \<Rightarrow> isUser_catch error
                | Inr None \<Rightarrow>
                    Respond \<lparr>rs_status = 400, rs_headers = [],
                             rs_body = JsonBody (JObj [(''error'', JStr ''User not found'')])\<rparr>
                | Inr (Some u) \<Rightarrow> Continue (req\<lparr>user := Some u\<rparr>))))"

subsection \<open>isVerified and verificationMailSent\<close>

text \<open>
  Both guards end in the same \<^verbatim>\<open>catch (error)\<close>, which builds the descriptor with the
  key \<^verbatim>\<open>status\<close>.
\<close>

definition internal_catch :: "jsval \<Rightarrow> outcome" where
  "internal_catch error =
     (case get_prop error ''message'' of
        Inl e \<Rightarrow> Escaped e
      | Inr m \<Rightarrow>
          Fail (no_descriptor\<lparr>status := Some 500, message := m, extraData := error\<rparr>))"

text \<open>\<^verbatim>\<open>req.user.sys_id\<close>, which throws while \<^verbatim>\<open>req.user\<close> is \<^verbatim>\<open>undefined\<close>.\<close>

definition req_user :: "string \<Rightarrow> request \<Rightarrow> jsval + user" where
  "req_user k req =
     (case user req of
        None \<Rightarrow> Inl (TypeError (''Cannot read properties of undefined (reading ''
                        @ [CHR 0x27] @ k @ [CHR 0x27] @ '')''))
      | Some u \<Rightarrow> Inr u)"

text \<open>
  The guard \<^verbatim>\<open>isVerified\<close>; the plain name is the field of the user record.
\<close>

definition isVerified_guard :: "request \<Rightarrow> outcome" where
  "isVerified_guard req =
     (case req_user ''sys_id'' req of
        Inl error \<Rightarrow> internal_catch error
      | Inr u \<Rightarrow>
          if isVerified u = JBool False
          then Fail (no_descriptor\<lparr>path := Some ''/middleware/isVerified'',
                                    statusCode := Some 400,
                                    message := JStr ''User is not verified''\<rparr>)
          else Continue req)"

text \<open>
  A \<^verbatim>\<open>Date\<close> is its time value in milliseconds, \<open>None\<close> when it is an Invalid Date:
  \<^verbatim>\<open>new Date(t)\<close> clips at 8.64e15 ms. \<^verbatim>\<open>getMinutes\<close> and \<^verbatim>\<open>getSeconds\<close> read the
  minute and the second of the local time, \<open>None\<close> being NaN.
\<close>

definition new_Date :: "int \<Rightarrow> int option" where
  "new_Date t = (if \<bar>t\<bar> \<le> 8640000000000000 then Some t else None)"

definition getMinutes :: "env \<Rightarrow> int option \<Rightarrow> int option" where
  "getMinutes E d = map_option (\<lambda>t. ((t + tzOffset E) div 60000) mod 60) d"

definition getSeconds :: "env \<Rightarrow> int option \<Rightarrow> int option" where
  "getSeconds E d = map_option (\<lambda>t. ((t + tzOffset E) div 1000) mod 60) d"

definition show_number :: "int option \<Rightarrow> string" where
  "show_number n = (case n of None \<Rightarrow> ''NaN'' | Some i \<Rightarrow> show_int i)"

definition leftTime_text :: "env \<Rightarrow> int option \<Rightarrow> string" where
  "leftTime_text E leftTime =
     (if getMinutes E leftTime \<noteq> Some 0
      then show_number (getMinutes E leftTime) @ '':'' @ show_number (getSeconds E leftTime)
           @ '' minutes''
      else show_number (getSeconds E leftTime) @ '' seconds'')"

text \<open>
  The guard reads the clock twice: \<open>now1\<close> is the \<^verbatim>\<open>new Date()\<close> of the comparison,
  \<open>now2\<close> the \<^verbatim>\<open>Date.now()\<close> of the subtraction.
\<close>

definition verificationMailSent :: "env \<Rightarrow> int \<Rightarrow> int \<Rightarrow> request \<Rightarrow> outcome" where
  "verificationMailSent E now1 now2 req =
     (case req_user ''sys_id'' req of
        Inl error \<Rightarrow> internal_catch error
      | Inr u \<Rightarrow>
          (case verificationTokens_by_userId E (sys_id u) of
             Inl error \<Rightarrow> internal_catch error
           | Inr None \<Rightarrow> Continue req
           | Inr (Some tokenData) \<Rightarrow>
               if expiresAt tokenData > now1
               then
                 (let leftTime = new_Date (expiresAt tokenData - now2)
                  in Fail (no_descriptor
                       \<lparr>path := Some ''/middleWare/verificationMailSent'',
                        statusCode := Some 400,
                        message := JStr (''Verification mail already sent, you can resend it after ''
                                          @ leftTime_text E leftTime)\<rparr>))
               else Continue req))"

subsection \<open>rateLimiting\<close>

text \<open>
  The options object the source passes to \<^verbatim>\<open>rateLimit\<close> of \<^verbatim>\<open>express-rate-limit\<close>.
  \<^verbatim>\<open>keyGenerator\<close> and \<^verbatim>\<open>skip\<close> read \<^verbatim>\<open>req.user.githubId\<close> and throw while \<^verbatim>\<open>req.user\<close>
  is \<^verbatim>\<open>undefined\<close>. (\<^verbatim>\<open>max\<close> and \<^verbatim>\<open>message\<close> carry a suffix: the plain names are taken.)
\<close>

record rateLimitOptions =
  windowMs :: int
  max_opt :: nat
  message_opt :: jsval
  keyGenerator :: "request \<Rightarrow> jsval + string"
  standardHeaders :: bool
  legacyHeaders :: bool
  skip :: "request \<Rightarrow> jsval + bool"

definition rateLimiting_options :: rateLimitOptions where
  "rateLimiting_options =
     \<lparr>windowMs = 2 * 60 * 1000,
      max_opt = 2,
      message_opt = JObj
        [(''path'', JStr ''/middleWare/rateLimitExceeded''),
         (''statusCode'', JNum 429),
         (''message'', JStr ''Too many requests from this user, please try again after 2 minutes.'')],
      keyGenerator = (\<lambda>req. case req_user ''githubId'' req of
                               Inl e \<Rightarrow> Inl e | Inr u \<Rightarrow> Inr (githubId u)),
      standardHeaders = True,
      legacyHeaders = False,
      skip = (\<lambda>req. case req_user ''githubId'' req of
                       Inl e \<Rightarrow> Inl e | Inr u \<Rightarrow> Inr (githubId u = ''jalaym825''))\<rparr>"

text \<open>
  Modelled from the spec: the middleware that \<^verbatim>\<open>rateLimit(options)\<close> returns. The
  library \<^verbatim>\<open>express-rate-limit\<close> is not among the sources; only the call with its
  options is. The spec words it as a sliding-window counter keyed by the key that
  \<^verbatim>\<open>keyGenerator\<close> gives, a request that \<^verbatim>\<open>skip\<close> accepts being exempt from the count,
  a request over the limit answered with 429 and the configured message, and the
  standard rate-limit headers on the response but not the legacy ones. The store
  keeps, for each key, the times of the requests counted.
\<close>

type_synonym hitStore = "string \<Rightarrow> int list"

definition rateLimit_headers :: "rateLimitOptions \<Rightarrow> string list" where
  "rateLimit_headers opts =
     (if standardHeaders opts
      then [''RateLimit-Limit'', ''RateLimit-Remaining'', ''RateLimit-Reset''] else [])
     @ (if legacyHeaders opts
        then [''X-RateLimit-Limit'', ''X-RateLimit-Remaining'', ''X-RateLimit-Reset''] else [])"

definition thrown_descriptor :: "jsval \<Rightarrow> descriptor" where
  "thrown_descriptor e =
     no_descriptor
       \<lparr>message := (case get_prop e ''message'' of Inl x \<Rightarrow> JUndefined | Inr m \<Rightarrow> m),
        stack := (case get_prop e ''stack'' of Inl x \<Rightarrow> JUndefined | Inr st \<Rightarrow> st)\<rparr>"

definition rateLimit :: "rateLimitOptions \<Rightarrow> hitStore \<Rightarrow> int \<Rightarrow> request \<Rightarrow> hitStore \<times> outcome" where
  "rateLimit opts store now req =
     (case skip opts req of
        Inl e \<Rightarrow> (store, Fail (thrown_descriptor e))
      | Inr True \<Rightarrow> (store, Continue req)
      | Inr False \<Rightarrow>
          (case keyGenerator opts req of
             Inl e \<Rightarrow> (store, Fail (thrown_descriptor e))
           | Inr key \<Rightarrow>
               (let recent = filter (\<lambda>t. now - windowMs opts < t) (store key);
                    store' = store(key := now # recent)
                in if max_opt opts < length recent + 1
                   then (store', Respond \<lparr>rs_status = 429, rs_headers = rateLimit_headers opts,
                                           rs_body = JsonBody (message_opt opts)\<rparr>)
                   else (store', Continue req))))"

definition rateLimiting :: "hitStore \<Rightarrow> int \<Rightarrow> request \<Rightarrow> hitStore \<times> outcome" where
  "rateLimiting = rateLimit rateLimiting_options"


subsection \<open>A chain of guards\<close>

text \<open>
  The host framework calls the guards of a route in order, each on the request as the
  previous one left it, and stops at the first that does not call \<^verbatim>\<open>next()\<close>. A stage
  names the guard together with what it reads from outside the request: the schema,
  the clock readings.
\<close>

datatype stage =
    VerifyJWT
  | IsUser
  | IsVerified
  | VerificationMailSent int int
  | ValidateSchema schema
  | RateLimiting int

fun run_stage :: "env \<Rightarrow> hitStore \<Rightarrow> stage \<Rightarrow> request \<Rightarrow> hitStore \<times> outcome" where
  "run_stage E store VerifyJWT req = (store, verifyJWT E req)"
| "run_stage E store IsUser req = (store, isUser E req)"
| "run_stage E store IsVerified req = (store, isVerified_guard req)"
| "run_stage E store (VerificationMailSent now1 now2) req =
     (store, verificationMailSent E now1 now2 req)"
| "run_stage E store (ValidateSchema sch) req = (store, validateSchema sch req)"
| "run_stage E store (RateLimiting now) req = rateLimiting store now req"

fun run_chain :: "env \<Rightarrow> hitStore \<Rightarrow> stage list \<Rightarrow> request \<Rightarrow> hitStore \<times> outcome" where
  "run_chain E store [] req = (store, Continue req)"
| "run_chain E store (s # ss) req =
     (case run_stage E store s req of
        (store', Continue req') \<Rightarrow> run_chain E store' ss req'
      | (store', out) \<Rightarrow> (store', out))"

text \<open>The request each stage that is reached receives, in order.\<close>

fun chain_inputs :: "env \<Rightarrow> hitStore \<Rightarrow> stage list \<Rightarrow> request \<Rightarrow> request list" where
  "chain_inputs E store [] req = []"
| "chain_inputs E store (s # ss) req =
     req # (case run_stage E store s req of
              (store', Continue req') \<Rightarrow> chain_inputs E store' ss req'
            | (store', out) \<Rightarrow> [])"

definition rendered_status :: "outcome \<Rightarrow> int option" where
  "rendered_status out = map_option rs_status (rendered out)"

section \<open>The wording of two claims\<close>

text \<open>
  The message the cooldown claim describes, from the minute \<open>M\<close> and the second \<open>S\<close>:
  \<^verbatim>\<open>M:S minutes\<close> when \<open>M\<close> is not zero, \<^verbatim>\<open>S seconds\<close> otherwise. It is compared with
  what \<^verbatim>\<open>verificationMailSent\<close> builds.
\<close>

definition cooldown_message :: "int \<Rightarrow> int \<Rightarrow> jsval" where
  "cooldown_message M S =
     JStr (''Verification mail already sent, you can resend it after ''
           @ (if M \<noteq> 0 then show_int M @ '':'' @ show_int S @ '' minutes''
              else show_int S @ '' seconds''))"


section \<open>Concrete inputs\<close>

text \<open>
  A small world for evaluating the guards: one user, a token verifier that knows four
  tokens, a store whose lookup of the identifier \<^verbatim>\<open>storm\<close> throws, and a schema that
  wants an \<^verbatim>\<open>email\<close> string.
\<close>

definition example_user :: user where
  "example_user =
     \<lparr>sys_id = ''u1'', githubId = ''octocat'', email = ''octo@example.com'',
      isVerified = JBool True\<rparr>"

definition example_request :: request where
  "example_request =
     \<lparr>body = JObj [], cookies = None, authorization = None,
      originalUrl = ''/api/auth'', user = None\<rparr>"

text \<open>
  The lower-casing of the example world: the ASCII letters, every other code unit
  kept. The examples lower-case ASCII strings only, where this is what the engine does.
\<close>

definition example_lower_char :: "char \<Rightarrow> char" where
  "example_lower_char c =
     (case map_of (zip ''ABCDEFGHIJKLMNOPQRSTUVWXYZ'' ''abcdefghijklmnopqrstuvwxyz'') c of
        None \<Rightarrow> c
      | Some l \<Rightarrow> l)"

definition example_toLowerCase :: "string \<Rightarrow> string" where
  "example_toLowerCase s = map example_lower_char s"

definition example_issues :: jsval where
  "example_issues =
     JArr [JObj [(''message'', JStr ''Required'')], JObj [(''message'', JStr ''Invalid email'')]]"

definition example_schema :: schema where
  "example_schema b =
     (case get_prop b ''email'' of
        Inr (JStr s) \<Rightarrow> Inr (JObj [(''email'', JStr (example_toLowerCase s))])
      | _ \<Rightarrow> Inl (JObj [(''errors'', example_issues)]))"

definition db_down :: jsval where
  "db_down = JObj [(''message'', JStr ''Can not reach database server''),
                   (''stack'', JStr ''PrismaClientInitializationError'')]"

definition example_env :: env where
  "example_env =
     \<lparr>jwt_verify = (\<lambda>t.
        if t = ''good'' then Inr (JObj [(''id'', JStr ''octocat'')])
        else if t = ''anon'' then Inr (JObj [(''name'', JStr ''octocat'')])
        else if t = ''ghost'' then Inr (JObj [(''id'', JStr ''ghost'')])
        else if t = ''storm'' then Inr (JObj [(''id'', JStr ''storm'')])
        else Inl (JObj [(''message'', JStr ''jwt malformed'')])),
      users_by_githubId = (\<lambda>i.
        if i = JStr ''octocat'' then Inr (Some example_user)
        else if i = JStr ''storm'' then Inl db_down
        else Inr None),
      users_by_email = (\<lambda>e.
        if e = ''octo@example.com'' then Inr (Some example_user) else Inr None),
      verificationTokens_by_userId = (\<lambda>s.
        if s = ''u1'' then Inr (Some \<lparr>userId = ''u1'', expiresAt = 1700003605000\<rparr>)
        else if s = ''u2'' then Inl db_down
        else Inr None),
      tzOffset = 0,
      toLowerCase = example_toLowerCase\<rparr>"

text \<open>
  A second world: its lower-casing also maps the code unit 0xC0 (a capital A with
  grave, as the engine's does) to 0xE0, and its store knows one address, in lower case.
\<close>

definition latin_env :: env where
  "latin_env =
     example_env
       \<lparr>users_by_email := (\<lambda>e.
          if e = CHR 0xE0 # ''b@x.com'' then Inr (Some example_user) else Inr None),
        toLowerCase := (\<lambda>s. map (\<lambda>c. if c = CHR 0xC0 then CHR 0xE0 else example_lower_char c) s)\<rparr>"

definition with_cookie :: "string \<Rightarrow> request" where
  "with_cookie t = example_request\<lparr>cookies := Some [(''token'', t)]\<rparr>"


definition authenticated :: request where
  "authenticated = (with_cookie ''good'')\<lparr>user := Some example_user\<rparr>"

definition user_with :: "jsval \<Rightarrow> request" where
  "user_with v = example_request\<lparr>user := Some (example_user\<lparr>isVerified := v\<rparr>)\<rparr>"


definition example_chain :: "stage list" where
  "example_chain =
     [IsVerified, VerificationMailSent 1800000000000 1800000000001,
      RateLimiting 1800000000002, ValidateSchema example_schema]"

section \<open>Shared facts\<close>



lemma verifyJWT_Continue:
  "verifyJWT E req = Continue req' \<Longrightarrow>
     \<exists>t payload ident u. select_token req = Some t \<and> jwt_verify E t = Inr payload
        \<and> get_prop payload ''id'' = Inr ident \<and> users_by_githubId E ident = Inr (Some u)
        \<and> req' = req\<lparr>user := Some u\<rparr>"
  by (auto simp: verifyJWT_def verifyJWT_catch_def split: option.splits sum.splits if_splits)


lemma verifyJWT_good: "verifyJWT example_env (with_cookie ''good'') = Continue authenticated"
  by (simp add: verifyJWT_def select_token_def cookie_token_def with_cookie_def
      example_request_def example_env_def authenticated_def)

text \<open>No stage of a chain takes the attached user away.\<close>

lemma run_stage_keeps_user:
  "run_stage E store s req = (store', Continue req') \<Longrightarrow> user req \<noteq> None \<Longrightarrow> user req' \<noteq> None"
  by (cases s)
     (auto simp: verifyJWT_def verifyJWT_catch_def isUser_def isUser_catch_def
        isVerified_guard_def verificationMailSent_def internal_catch_def validateSchema_def
        rateLimiting_def rateLimit_def Let_def req_user_def
        split: option.splits sum.splits if_splits bool.splits)

lemma chain_inputs_have_user:
  "user req \<noteq> None \<Longrightarrow> r \<in> set (chain_inputs E store ss req) \<Longrightarrow> user r \<noteq> None"
proof (induction ss arbitrary: store req)
  case Nil
  then show ?case by simp
next
  case (Cons s ss)
  show ?case
  proof (cases "r = req")
    case True
    with Cons.prems show ?thesis by simp
  next
    case False
    obtain store' out where step: "run_stage E store s req = (store', out)"
      by (cases "run_stage E store s req")
    with Cons.prems False obtain req' where out: "out = Continue req'"
      and mem: "r \<in> set (chain_inputs E store' ss req')"
      by (cases out) auto
    from step out Cons.prems(1) have "user req' \<noteq> None"
      by (auto dest: run_stage_keeps_user)
    with Cons.IH mem show ?thesis by blast
  qed
qed

lemma call_toLowerCase_non_string:
  "\<forall>s. v \<noteq> JStr s \<Longrightarrow>
     \<exists>msg. msg \<noteq> [] \<and> call_toLowerCase lower nm v = Inl (TypeError msg)"
  by (cases v) auto

lemma destructure_email_nullish:
  "b = JUndefined \<or> b = JNull \<Longrightarrow>
     \<exists>msg. msg \<noteq> [] \<and> destructure_email b = Inl (TypeError msg)"
  by (auto simp: destructure_email_def)

lemma destructure_email_Inr:
  "destructure_email b = Inr v \<Longrightarrow> b \<noteq> JUndefined \<and> b \<noteq> JNull"
  by (auto simp: destructure_email_def split: if_splits)

lemma isUser_caught:
  assumes "destructure_email (body req) = Inl error
           \<or> (destructure_email (body req) = Inr v
                \<and> call_toLowerCase (toLowerCase E) ''email'' v = Inl error)"
    and "error = TypeError msg" and "msg \<noteq> []"
  shows "isUser E req =
           Fail (no_descriptor\<lparr>status := Some 400, message := JStr msg, extraData := error\<rparr>)"
    and "rendered (isUser E req) =
           Some \<lparr>rs_status = 400, rs_headers = [],
                 rs_body = ApiErrorBody
                   \<lparr>ae_statusCode = 400, ae_message = JStr msg,
                    ae_error = \<lparr>eb_message = JStr msg, eb_extraData = Some error\<rparr>,
                    ae_stack = JUndefined\<rparr>\<rparr>"
  using assms
  by (auto simp: isUser_def isUser_catch_def TypeError_def errorMiddleware_def
      no_descriptor_def merge_extraData_def)

lemma leftTime_text_valid:
  "\<bar>d\<bar> \<le> 8640000000000000 \<Longrightarrow>
     leftTime_text E (new_Date d) =
       (if ((d + tzOffset E) div 60000) mod 60 \<noteq> 0
        then show_int (((d + tzOffset E) div 60000) mod 60) @ '':''
             @ show_int (((d + tzOffset E) div 1000) mod 60) @ '' minutes''
        else show_int (((d + tzOffset E) div 1000) mod 60) @ '' seconds'')"
  by (simp add: leftTime_text_def new_Date_def getMinutes_def getSeconds_def show_number_def)

lemma leftTime_text_invalid:
  "\<not> \<bar>d\<bar> \<le> 8640000000000000 \<Longrightarrow> leftTime_text E (new_Date d) = ''NaN:NaN minutes''"
  by (simp add: leftTime_text_def new_Date_def getMinutes_def getSeconds_def show_number_def)

lemma show_small: "show_int 5 = ''5''" "show_int 30 = ''30''" "show_int 1 = ''1''"
  by (simp_all add: show_int_def show_nat.simps digit_char_def)




section \<open>The claims\<close>

subsection \<open>C1: the schema guard\<close>

text \<open>
  C1. A body the schema accepts replaces \<^verbatim>\<open>request.body\<close> and the chain continues. A
  body the schema rejects, with a non-empty list of issues, gives a descriptor whose
  message is the first issue's message and whose \<^verbatim>\<open>extraData\<close> is the whole list. The
  claim has the pipeline render it with HTTP status 422. The guard writes 422 under the
  key \<^verbatim>\<open>status\<close>, \<^verbatim>\<open>errorMiddleware\<close> reads \<^verbatim>\<open>statusCode\<close> (the key \<^verbatim>\<open>verifyJWT\<close> writes),
  finds none and sends its default: the client gets 400.
\<close>

theorem validateSchema_failure_renders_400:
  "(schema (body req) = Inr parsedBody \<longrightarrow>
      validateSchema schema req = Continue (req\<lparr>body := parsedBody\<rparr>))
   \<and> (schema (body req) = Inl err \<and> get_prop err ''errors'' = Inr (JArr (first # rest))
        \<and> get_prop first ''message'' = Inr msg \<longrightarrow>
      (\<exists>d. validateSchema schema req = Fail d \<and> status d = Some 422 \<and> statusCode d = None
            \<and> message d = msg \<and> extraData d = JArr (first # rest))
      \<and> rendered_status (validateSchema schema req) = Some 400)"
  by (simp add: validateSchema_def no_descriptor_def errorMiddleware_def Let_def
      rendered_status_def)

text \<open>At the example schema: an empty body is rejected and answered with 400, not 422.\<close>

theorem validateSchema_failure_renders_400_witness:
  "rendered_status (validateSchema example_schema example_request) = Some 400
   \<and> rendered_status (validateSchema example_schema example_request) \<noteq> Some 422
   \<and> validateSchema example_schema
        (example_request\<lparr>body := JObj [(''email'', JStr ''A@b.c'')]\<rparr>) =
       Continue (example_request\<lparr>body := JObj [(''email'', JStr ''a@b.c'')]\<rparr>)"
  using validateSchema_failure_renders_400 [where schema = example_schema
      and req = example_request and err = "JObj [(''errors'', example_issues)]"
      and first = "JObj [(''message'', JStr ''Required'')]"
      and rest = "[JObj [(''message'', JStr ''Invalid email'')]]" and msg = "JStr ''Required''"]
    validateSchema_failure_renders_400 [where schema = example_schema
      and req = "example_request\<lparr>body := JObj [(''email'', JStr ''A@b.c'')]\<rparr>"
      and parsedBody = "JObj [(''email'', JStr ''a@b.c'')]"]
  by (auto simp: example_schema_def example_request_def example_issues_def
      example_toLowerCase_def example_lower_char_def)

subsection \<open>C2: exceptions inside isVerified and verificationMailSent\<close>

text \<open>
  C2. An exception inside \<^verbatim>\<open>isVerified\<close> or \<^verbatim>\<open>verificationMailSent\<close> (no user attached,
  or the token lookup throws) goes through the error channel, as the claim says. The
  claim has the response carry status 500. Both \<^verbatim>\<open>catch\<close> blocks write 500 under the
  key \<^verbatim>\<open>status\<close>, not \<^verbatim>\<open>statusCode\<close> as the \<^verbatim>\<open>catch\<close> of \<^verbatim>\<open>verifyJWT\<close> does, so
  \<^verbatim>\<open>errorMiddleware\<close> sends its default: the client gets 400.
\<close>

theorem internal_failures_render_400:
  "(user req = None \<longrightarrow>
      (\<exists>d. isVerified_guard req = Fail d \<and> status d = Some 500 \<and> statusCode d = None)
      \<and> rendered_status (isVerified_guard req) = Some 400
      \<and> (\<exists>d. verificationMailSent E now1 now2 req = Fail d \<and> status d = Some 500
               \<and> statusCode d = None)
      \<and> rendered_status (verificationMailSent E now1 now2 req) = Some 400)
   \<and> (user req = Some u \<and> verificationTokens_by_userId E (sys_id u) = Inl e
        \<and> get_prop e ''message'' = Inr m \<longrightarrow>
      (\<exists>d. verificationMailSent E now1 now2 req = Fail d \<and> status d = Some 500
            \<and> statusCode d = None)
      \<and> rendered_status (verificationMailSent E now1 now2 req) = Some 400)"
  by (simp add: isVerified_guard_def verificationMailSent_def req_user_def internal_catch_def
      TypeError_def no_descriptor_def errorMiddleware_def Let_def rendered_status_def)

text \<open>
  At a request with no user attached, and at a user whose token lookup throws.
\<close>

theorem internal_failures_render_400_witness:
  "rendered_status (isVerified_guard example_request) = Some 400
   \<and> rendered_status (verificationMailSent example_env 0 0 example_request) = Some 400
   \<and> rendered_status (verificationMailSent example_env 0 0
        (example_request\<lparr>user := Some (example_user\<lparr>sys_id := ''u2''\<rparr>)\<rparr>)) = Some 400"
  using internal_failures_render_400 [where req = example_request and E = example_env
        and ?now1.0 = 0 and ?now2.0 = 0]
    internal_failures_render_400
      [where req = "example_request\<lparr>user := Some (example_user\<lparr>sys_id := ''u2''\<rparr>)\<rparr>"
        and u = "example_user\<lparr>sys_id := ''u2''\<rparr>" and E = example_env and e = db_down
        and m = "JStr ''Can not reach database server''" and ?now1.0 = 0 and ?now2.0 = 0]
  by (simp add: example_request_def example_env_def example_user_def db_down_def)

subsection \<open>C3: the error handler\<close>

text \<open>
  C3, as the code has it. A descriptor without \<^verbatim>\<open>statusCode\<close> is answered with status
  400. A descriptor whose \<^verbatim>\<open>extraData\<close> is truthy has it, unchanged, under the key
  \<^verbatim>\<open>extraData\<close> of the body's error object, beside the message. A descriptor whose
  \<^verbatim>\<open>extraData\<close> is falsy (\<^verbatim>\<open>undefined\<close>, \<^verbatim>\<open>null\<close>, \<^verbatim>\<open>false\<close>, 0, NaN, the empty string)
  gets an error object without that key: the handler tests \<^verbatim>\<open>if (err.extraData)\<close>.
\<close>

theorem errorMiddleware_default_status_and_extraData:
  "(statusCode err = None \<longrightarrow> rs_status (errorMiddleware err) = 400)
   \<and> (truthy (extraData err) \<longrightarrow>
        (\<exists>ae. rs_body (errorMiddleware err) = ApiErrorBody ae
           \<and> ae_error ae =
               \<lparr>eb_message = (if truthy (message err) then message err
                               else JStr ''Something went wrong''),
                eb_extraData = Some (extraData err)\<rparr>))
   \<and> (\<not> truthy (extraData err) \<longrightarrow>
        (\<exists>ae. rs_body (errorMiddleware err) = ApiErrorBody ae
           \<and> eb_extraData (ae_error ae) = None))"
  by (simp add: errorMiddleware_def merge_extraData_def Let_def)

text \<open>At the descriptor of a rejected body, and at one whose \<^verbatim>\<open>extraData\<close> is 0.\<close>

theorem errorMiddleware_default_status_and_extraData_witness:
  "rs_status (errorMiddleware (no_descriptor\<lparr>status := Some 422, message := JStr ''Required'',
       extraData := example_issues\<rparr>)) = 400
   \<and> (\<exists>ae. rs_body (errorMiddleware (no_descriptor\<lparr>status := Some 422,
               message := JStr ''Required'', extraData := example_issues\<rparr>)) = ApiErrorBody ae
         \<and> ae_error ae = \<lparr>eb_message = JStr ''Required'', eb_extraData = Some example_issues\<rparr>)
   \<and> (\<exists>ae. rs_body (errorMiddleware (no_descriptor\<lparr>message := JStr ''Quota used up'',
               extraData := JNum 0\<rparr>)) = ApiErrorBody ae
         \<and> eb_extraData (ae_error ae) = None)"
  using errorMiddleware_default_status_and_extraData
          [where err = "no_descriptor\<lparr>status := Some 422, message := JStr ''Required'',
                                         extraData := example_issues\<rparr>"]
        errorMiddleware_default_status_and_extraData
          [where err = "no_descriptor\<lparr>message := JStr ''Quota used up'', extraData := JNum 0\<rparr>"]
  by (simp add: no_descriptor_def example_issues_def)

text \<open>
  The claim as worded fails for a descriptor that carries the \<^verbatim>\<open>extraData\<close> 0: the
  error object of the response has no \<^verbatim>\<open>extraData\<close>.
\<close>

theorem errorMiddleware_falsy_extraData_counterexample:
  "extraData (no_descriptor\<lparr>message := JStr ''Quota used up'', extraData := JNum 0\<rparr>) = JNum 0
   \<and> errorMiddleware (no_descriptor\<lparr>message := JStr ''Quota used up'', extraData := JNum 0\<rparr>) =
     \<lparr>rs_status = 400, rs_headers = [],
      rs_body = ApiErrorBody
        \<lparr>ae_statusCode = 400, ae_message = JStr ''Quota used up'',
         ae_error = \<lparr>eb_message = JStr ''Quota used up'', eb_extraData = None\<rparr>,
         ae_stack = JUndefined\<rparr>\<rparr>"
  by (simp add: errorMiddleware_def no_descriptor_def)

subsection \<open>C4: the failure cases of verifyJWT\<close>




subsection \<open>C5: the user attached by verifyJWT\<close>

text \<open>
  C5. When \<^verbatim>\<open>verifyJWT\<close> calls \<^verbatim>\<open>next()\<close>, the request it passes on is the one it
  received with \<^verbatim>\<open>user\<close> set to the record the lookup found, and every guard reached in
  any chain run after it receives a request whose \<^verbatim>\<open>user\<close> is set.
\<close>

theorem verifyJWT_attaches_user:
  assumes "verifyJWT E req = Continue req'"
  shows "(\<exists>t payload ident u. select_token req = Some t \<and> jwt_verify E t = Inr payload
            \<and> get_prop payload ''id'' = Inr ident \<and> users_by_githubId E ident = Inr (Some u)
            \<and> req' = req\<lparr>user := Some u\<rparr>)
         \<and> user req' \<noteq> None
         \<and> (\<forall>r \<in> set (chain_inputs E store ss req'). user r \<noteq> None)"
proof -
  from assms obtain u where "req' = req\<lparr>user := Some u\<rparr>"
    using verifyJWT_Continue by blast
  then have "user req' \<noteq> None" by simp
  then show ?thesis
    using verifyJWT_Continue [OF assms] chain_inputs_have_user by blast
qed

text \<open>A valid cookie, then a chain of four guards, all of them reached.\<close>

theorem verifyJWT_attaches_user_witness:
  "verifyJWT example_env (with_cookie ''good'') = Continue authenticated
   \<and> user authenticated = Some example_user
   \<and> length (chain_inputs example_env (\<lambda>k. []) example_chain authenticated) = 4
   \<and> list_all (\<lambda>r. user r \<noteq> None) (chain_inputs example_env (\<lambda>k. []) example_chain authenticated)"
proof -
  have len: "length (chain_inputs example_env (\<lambda>k. []) example_chain authenticated) = 4"
    by (simp add: example_chain_def authenticated_def with_cookie_def example_request_def
        example_user_def example_env_def isVerified_guard_def verificationMailSent_def
        req_user_def rateLimiting_def rateLimit_def rateLimiting_options_def Let_def
        validateSchema_def example_schema_def example_issues_def)
  show ?thesis
    using verifyJWT_attaches_user [OF verifyJWT_good, where store = "\<lambda>k. []" and ss = example_chain]
      verifyJWT_good len
    by (simp add: list_all_iff authenticated_def)
qed

subsection \<open>C6: isUser answers a miss itself\<close>

text \<open>
  C6. For a body whose \<^verbatim>\<open>email\<close> is a string: when the email, lower-cased by the
  engine's \<^verbatim>\<open>toLowerCase\<close>, matches no user, \<^verbatim>\<open>isUser\<close> writes the response 400 with
  \<^verbatim>\<open>{ error: "User not found" }\<close> itself and hands nothing to \<^verbatim>\<open>next\<close>, so what the
  client gets is that response and not one of \<^verbatim>\<open>errorMiddleware\<close>; when it matches,
  the user is attached and the chain continues. This holds whatever the lower-casing
  function is.
\<close>

theorem isUser_miss_responds_directly:
  assumes "body req = JObj kvs" and "map_of kvs ''email'' = Some (JStr s)"
  shows "(users_by_email E (toLowerCase E s) = Inr None \<longrightarrow>
            isUser E req =
              Respond \<lparr>rs_status = 400, rs_headers = [],
                       rs_body = JsonBody (JObj [(''error'', JStr ''User not found'')])\<rparr>
            \<and> (\<forall>d. isUser E req \<noteq> Fail d)
            \<and> rendered (isUser E req) =
                Some \<lparr>rs_status = 400, rs_headers = [],
                      rs_body = JsonBody (JObj [(''error'', JStr ''User not found'')])\<rparr>)
         \<and> (users_by_email E (toLowerCase E s) = Inr (Some u) \<longrightarrow>
              isUser E req = Continue (req\<lparr>user := Some u\<rparr>))"
  using assms by (simp add: isUser_def destructure_email_def)

text \<open>
  An unknown address and a known one, both in mixed case, in the example world; and
  an address with a capital outside ASCII, in a world whose lower-casing maps the code
  unit 0xC0 to 0xE0 and whose store knows the lower-cased address: the user is found.
\<close>

theorem isUser_miss_responds_directly_witness:
  "toLowerCase example_env ''Nobody@Example.COM'' = ''nobody@example.com''
   \<and> isUser example_env (example_request\<lparr>body := JObj [(''email'', JStr ''Nobody@Example.COM'')]\<rparr>) =
       Respond \<lparr>rs_status = 400, rs_headers = [],
                rs_body = JsonBody (JObj [(''error'', JStr ''User not found'')])\<rparr>
   \<and> isUser example_env (example_request\<lparr>body := JObj [(''email'', JStr ''Octo@Example.com'')]\<rparr>) =
       Continue (example_request\<lparr>body := JObj [(''email'', JStr ''Octo@Example.com'')],
                                 user := Some example_user\<rparr>)
   \<and> isUser latin_env (example_request\<lparr>body := JObj [(''email'', JStr (CHR 0xC0 # ''B@x.com''))]\<rparr>) =
       Continue (example_request\<lparr>body := JObj [(''email'', JStr (CHR 0xC0 # ''B@x.com''))],
                                 user := Some example_user\<rparr>)"
proof -
  have l1: "toLowerCase example_env ''Nobody@Example.COM'' = ''nobody@example.com''"
    and l2: "toLowerCase example_env ''Octo@Example.com'' = ''octo@example.com''"
    by (simp_all add: example_env_def example_toLowerCase_def example_lower_char_def)
  have l3: "toLowerCase latin_env (CHR 0xC0 # ''B@x.com'') = CHR 0xE0 # ''b@x.com''"
    by (simp add: latin_env_def example_toLowerCase_def example_lower_char_def)
  have s1: "users_by_email example_env ''nobody@example.com'' = Inr None"
    and s2: "users_by_email example_env ''octo@example.com'' = Inr (Some example_user)"
    by (simp_all add: example_env_def)
  have s3: "users_by_email latin_env (CHR 0xE0 # ''b@x.com'') = Inr (Some example_user)"
    by (simp add: latin_env_def)
  show ?thesis
    using isUser_miss_responds_directly
        [where req = "example_request\<lparr>body := JObj [(''email'', JStr ''Nobody@Example.COM'')]\<rparr>"
           and kvs = "[(''email'', JStr ''Nobody@Example.COM'')]" and s = "''Nobody@Example.COM''"
           and E = example_env]
      isUser_miss_responds_directly
        [where req = "example_request\<lparr>body := JObj [(''email'', JStr ''Octo@Example.com'')]\<rparr>"
           and kvs = "[(''email'', JStr ''Octo@Example.com'')]" and s = "''Octo@Example.com''"
           and E = example_env and u = example_user]
      isUser_miss_responds_directly
        [where req = "example_request\<lparr>body := JObj [(''email'', JStr (CHR 0xC0 # ''B@x.com''))]\<rparr>"
           and kvs = "[(''email'', JStr (CHR 0xC0 # ''B@x.com''))]" and s = "CHR 0xC0 # ''B@x.com''"
           and E = latin_env and u = example_user]
    by (simp add: l1 l2 l3 s1 s2 s3 example_request_def)
qed

subsection \<open>C7: isVerified\<close>

text \<open>
  C7. With a user attached: when \<^verbatim>\<open>user.isVerified\<close> is \<^verbatim>\<open>false\<close> the guard fails with
  status code 400 and the message "User is not verified", which the client gets as a
  400; for any other value (\<^verbatim>\<open>true\<close>, \<^verbatim>\<open>null\<close>, \<^verbatim>\<open>undefined\<close>, ...) the chain continues
  with the request unchanged.
\<close>

theorem isVerified_false_fails:
  assumes "user req = Some u"
  shows "(isVerified u = JBool False \<longrightarrow>
            isVerified_guard req =
              Fail (no_descriptor\<lparr>path := Some ''/middleware/isVerified'',
                                   statusCode := Some 400,
                                   message := JStr ''User is not verified''\<rparr>)
            \<and> rendered_status (isVerified_guard req) = Some 400)
         \<and> (isVerified u \<noteq> JBool False \<longrightarrow> isVerified_guard req = Continue req)"
  using assms
  by (simp add: isVerified_guard_def req_user_def rendered_status_def errorMiddleware_def
      no_descriptor_def)

text \<open>At \<^verbatim>\<open>false\<close>, \<^verbatim>\<open>true\<close>, \<^verbatim>\<open>null\<close> and \<^verbatim>\<open>undefined\<close>.\<close>

theorem isVerified_false_fails_witness:
  "rendered_status (isVerified_guard (user_with (JBool False))) = Some 400
   \<and> isVerified_guard (user_with (JBool True)) = Continue (user_with (JBool True))
   \<and> isVerified_guard (user_with JNull) = Continue (user_with JNull)
   \<and> isVerified_guard (user_with JUndefined) = Continue (user_with JUndefined)"
  using isVerified_false_fails [where req = "user_with (JBool False)"
          and u = "example_user\<lparr>isVerified := JBool False\<rparr>"]
        isVerified_false_fails [where req = "user_with (JBool True)"
          and u = "example_user\<lparr>isVerified := JBool True\<rparr>"]
        isVerified_false_fails [where req = "user_with JNull"
          and u = "example_user\<lparr>isVerified := JNull\<rparr>"]
        isVerified_false_fails [where req = "user_with JUndefined"
          and u = "example_user\<lparr>isVerified := JUndefined\<rparr>"]
  by (auto simp: user_with_def)

subsection \<open>C8: the cooldown of verificationMailSent\<close>

text \<open>
  C8. With a user attached and a token record whose \<^verbatim>\<open>expiresAt\<close> is later than the
  clock: the guard fails with status code 400 (which the client gets as a 400) and the
  message of the claim, where \<open>M\<close> and \<open>S\<close> are the minute and the second of the local
  time at \<^verbatim>\<open>expiresAt - now\<close> milliseconds after the epoch, not the minutes and seconds
  of the duration. (A difference beyond the range of \<^verbatim>\<open>Date\<close> prints as
  \<^verbatim>\<open>NaN:NaN minutes\<close>.) With no token record, or one whose \<^verbatim>\<open>expiresAt\<close> is not later
  than the clock, the chain continues.
\<close>

theorem verificationMailSent_cooldown:
  assumes "user req = Some u"
  shows "(verificationTokens_by_userId E (sys_id u) = Inr (Some tokenData)
            \<and> now1 < expiresAt tokenData \<and> \<bar>expiresAt tokenData - now2\<bar> \<le> 8640000000000000 \<longrightarrow>
          verificationMailSent E now1 now2 req =
            Fail (no_descriptor
                   \<lparr>path := Some ''/middleWare/verificationMailSent'', statusCode := Some 400,
                    message := cooldown_message
                      (((expiresAt tokenData - now2 + tzOffset E) div 60000) mod 60)
                      (((expiresAt tokenData - now2 + tzOffset E) div 1000) mod 60)\<rparr>)
          \<and> rendered_status (verificationMailSent E now1 now2 req) = Some 400)
       \<and> (verificationTokens_by_userId E (sys_id u) = Inr (Some tokenData)
            \<and> now1 < expiresAt tokenData \<and> \<not> \<bar>expiresAt tokenData - now2\<bar> \<le> 8640000000000000 \<longrightarrow>
          verificationMailSent E now1 now2 req =
            Fail (no_descriptor
                   \<lparr>path := Some ''/middleWare/verificationMailSent'', statusCode := Some 400,
                    message := JStr (''Verification mail already sent, you can resend it after ''
                                     @ ''NaN:NaN minutes'')\<rparr>)
          \<and> rendered_status (verificationMailSent E now1 now2 req) = Some 400)
       \<and> (verificationTokens_by_userId E (sys_id u) = Inr None \<longrightarrow>
            verificationMailSent E now1 now2 req = Continue req)
       \<and> (verificationTokens_by_userId E (sys_id u) = Inr (Some tokenData)
            \<and> expiresAt tokenData \<le> now1 \<longrightarrow>
            verificationMailSent E now1 now2 req = Continue req)"
  using assms
  by (simp add: verificationMailSent_def req_user_def Let_def leftTime_text_valid
      leftTime_text_invalid cooldown_message_def rendered_status_def errorMiddleware_def
      no_descriptor_def del: abs_le_iff)

text \<open>
  A token that expires in 1 h 0 min 5 s reads "5 seconds" in UTC; one that expires in
  5 s reads "30:5 minutes" where local time is UTC+5:30; one that expires in 1 min 5 s
  reads "1:5 minutes" in UTC. At the moment of expiry, and for a user without a token,
  the chain continues.
\<close>

theorem verificationMailSent_cooldown_witness:
  "verificationMailSent example_env 1700000000000 1700000000000 authenticated =
     Fail (no_descriptor
            \<lparr>path := Some ''/middleWare/verificationMailSent'', statusCode := Some 400,
             message := JStr ''Verification mail already sent, you can resend it after 5 seconds''\<rparr>)
   \<and> verificationMailSent (example_env\<lparr>tzOffset := 19800000\<rparr>) 1700003600000 1700003600000
        authenticated =
     Fail (no_descriptor
            \<lparr>path := Some ''/middleWare/verificationMailSent'', statusCode := Some 400,
             message := JStr ''Verification mail already sent, you can resend it after 30:5 minutes''\<rparr>)
   \<and> verificationMailSent example_env 1700003540000 1700003540000 authenticated =
     Fail (no_descriptor
            \<lparr>path := Some ''/middleWare/verificationMailSent'', statusCode := Some 400,
             message := JStr ''Verification mail already sent, you can resend it after 1:5 minutes''\<rparr>)
   \<and> verificationMailSent example_env 1700003605000 1700003605000 authenticated =
       Continue authenticated
   \<and> verificationMailSent example_env 0 0 (authenticated\<lparr>user := Some (example_user\<lparr>sys_id := ''u3''\<rparr>)\<rparr>) =
       Continue (authenticated\<lparr>user := Some (example_user\<lparr>sys_id := ''u3''\<rparr>)\<rparr>)"
proof -
  let ?tok = "\<lparr>userId = ''u1'', expiresAt = 1700003605000\<rparr>"
  have tok: "verificationTokens_by_userId example_env (sys_id example_user) = Inr (Some ?tok)"
    "verificationTokens_by_userId (example_env\<lparr>tzOffset := 19800000\<rparr>) (sys_id example_user) = Inr (Some ?tok)"
    "verificationTokens_by_userId example_env ''u3'' = Inr None"
    by (simp_all add: example_env_def example_user_def)
  have u: "user authenticated = Some example_user" by (simp add: authenticated_def)
  have tz: "tzOffset example_env = 0" by (simp add: example_env_def)
  show ?thesis
    using verificationMailSent_cooldown [OF u, where E = example_env and tokenData = ?tok
            and ?now1.0 = 1700000000000 and ?now2.0 = 1700000000000]
          verificationMailSent_cooldown [OF u, where E = "example_env\<lparr>tzOffset := 19800000\<rparr>"
            and tokenData = ?tok and ?now1.0 = 1700003600000 and ?now2.0 = 1700003600000]
          verificationMailSent_cooldown [OF u, where E = example_env and tokenData = ?tok
            and ?now1.0 = 1700003540000 and ?now2.0 = 1700003540000]
          verificationMailSent_cooldown [OF u, where E = example_env and tokenData = ?tok
            and ?now1.0 = 1700003605000 and ?now2.0 = 1700003605000]
          verificationMailSent_cooldown
            [where req = "authenticated\<lparr>user := Some (example_user\<lparr>sys_id := ''u3''\<rparr>)\<rparr>"
               and u = "example_user\<lparr>sys_id := ''u3''\<rparr>" and E = example_env
               and ?now1.0 = 0 and ?now2.0 = 0]
    by (simp add: tok tz cooldown_message_def show_small)
qed

subsection \<open>C9: the rate limiter\<close>



subsection \<open>C10: isUser on a body without an email string\<close>

text \<open>
  C10. When the body's \<^verbatim>\<open>email\<close> is anything but a string (absent, \<^verbatim>\<open>null\<close>, a number,
  ...), or the body itself is \<^verbatim>\<open>undefined\<close> or \<^verbatim>\<open>null\<close>, reading or lower-casing the
  email throws a \<^verbatim>\<open>TypeError\<close>, and \<^verbatim>\<open>isUser\<close> neither continues nor lets it escape:
  that very exception is caught and handed to \<^verbatim>\<open>next\<close> in a descriptor whose message
  is the exception's message and whose \<^verbatim>\<open>extraData\<close> is the exception, and
  \<^verbatim>\<open>errorMiddleware\<close> answers it with status 400, that message and that exception in
  the body.
\<close>

theorem isUser_without_email_fails_400:
  "(destructure_email (body req) = Inr v \<and> (\<forall>s. v \<noteq> JStr s)
      \<or> body req = JUndefined \<or> body req = JNull \<longrightarrow>
    (\<exists>thrown msg.
       (destructure_email (body req) = Inl thrown
          \<or> (destructure_email (body req) = Inr v
               \<and> call_toLowerCase (toLowerCase E) ''email'' v = Inl thrown))
       \<and> get_prop thrown ''message'' = Inr (JStr msg)
       \<and> isUser E req =
           Fail (no_descriptor\<lparr>status := Some 400, message := JStr msg,
                                extraData := thrown\<rparr>)
       \<and> rendered (isUser E req) =
           Some \<lparr>rs_status = 400, rs_headers = [],
                 rs_body = ApiErrorBody
                   \<lparr>ae_statusCode = 400, ae_message = JStr msg,
                    ae_error = \<lparr>eb_message = JStr msg, eb_extraData = Some thrown\<rparr>,
                    ae_stack = JUndefined\<rparr>\<rparr>))
   \<and> (destructure_email (body req) = Inr JUndefined \<longrightarrow>
        (\<exists>d. isUser E req = Fail d
           \<and> message d = JStr (''Cannot read properties of undefined (reading ''
                                 @ [CHR 0x27] @ ''toLowerCase'' @ [CHR 0x27] @ '')'')))
   \<and> (destructure_email (body req) = Inr JNull \<longrightarrow>
        (\<exists>d. isUser E req = Fail d
           \<and> message d = JStr (''Cannot read properties of null (reading ''
                                 @ [CHR 0x27] @ ''toLowerCase'' @ [CHR 0x27] @ '')'')))
   \<and> (destructure_email (body req) = Inr (JNum n) \<longrightarrow>
        (\<exists>d. isUser E req = Fail d
           \<and> message d = JStr ''email.toLowerCase is not a function''))"
proof -
  have general: "\<exists>thrown msg.
       (destructure_email (body req) = Inl thrown
          \<or> (destructure_email (body req) = Inr v
               \<and> call_toLowerCase (toLowerCase E) ''email'' v = Inl thrown))
       \<and> get_prop thrown ''message'' = Inr (JStr msg)
       \<and> isUser E req =
           Fail (no_descriptor\<lparr>status := Some 400, message := JStr msg,
                                extraData := thrown\<rparr>)
       \<and> rendered (isUser E req) =
           Some \<lparr>rs_status = 400, rs_headers = [],
                 rs_body = ApiErrorBody
                   \<lparr>ae_statusCode = 400, ae_message = JStr msg,
                    ae_error = \<lparr>eb_message = JStr msg, eb_extraData = Some thrown\<rparr>,
                    ae_stack = JUndefined\<rparr>\<rparr>"
    if cond: "destructure_email (body req) = Inr v \<and> (\<forall>s. v \<noteq> JStr s)
        \<or> body req = JUndefined \<or> body req = JNull"
  proof -
    obtain msg where ne: "msg \<noteq> []"
      and src: "destructure_email (body req) = Inl (TypeError msg)
          \<or> (destructure_email (body req) = Inr v
               \<and> call_toLowerCase (toLowerCase E) ''email'' v = Inl (TypeError msg))"
    proof (cases "body req = JUndefined \<or> body req = JNull")
      case True
      from destructure_email_nullish [OF True] that show ?thesis by blast
    next
      case False
      with cond have v: "destructure_email (body req) = Inr v" and ns: "\<forall>s. v \<noteq> JStr s"
        by auto
      from call_toLowerCase_non_string [OF ns, of "toLowerCase E" "''email''"] v that
      show ?thesis by blast
    qed
    have m: "get_prop (TypeError msg) ''message'' = Inr (JStr msg)"
      by (simp add: TypeError_def)
    from isUser_caught [OF src refl ne] m src show ?thesis by blast
  qed
  have undef: "\<exists>d. isUser E req = Fail d
      \<and> message d = JStr (''Cannot read properties of undefined (reading ''
                              @ [CHR 0x27] @ ''toLowerCase'' @ [CHR 0x27] @ '')'')"
    if "destructure_email (body req) = Inr JUndefined"
    using that by (simp add: isUser_def isUser_catch_def TypeError_def no_descriptor_def)
  have null: "\<exists>d. isUser E req = Fail d
      \<and> message d = JStr (''Cannot read properties of null (reading ''
                              @ [CHR 0x27] @ ''toLowerCase'' @ [CHR 0x27] @ '')'')"
    if "destructure_email (body req) = Inr JNull"
    using that by (simp add: isUser_def isUser_catch_def TypeError_def no_descriptor_def)
  have num: "\<exists>d. isUser E req = Fail d
      \<and> message d = JStr ''email.toLowerCase is not a function''"
    if "destructure_email (body req) = Inr (JNum n)"
    using that by (simp add: isUser_def isUser_catch_def TypeError_def no_descriptor_def)
  show ?thesis using general undef null num by blast
qed

text \<open>
  An empty body, a body whose \<^verbatim>\<open>email\<close> is a number, and no body at all: each time the
  descriptor carries the message of the exception that the read threw, and that
  exception.
\<close>

theorem isUser_without_email_fails_400_witness:
  "(\<exists>thrown. call_toLowerCase (toLowerCase example_env) ''email'' JUndefined = Inl thrown
       \<and> isUser example_env example_request =
           Fail (no_descriptor
                  \<lparr>status := Some 400,
                   message := JStr (''Cannot read properties of undefined (reading ''
                                    @ [CHR 0x27] @ ''toLowerCase'' @ [CHR 0x27] @ '')''),
                   extraData := thrown\<rparr>))
   \<and> (\<exists>thrown. call_toLowerCase (toLowerCase example_env) ''email'' (JNum 7) = Inl thrown
       \<and> isUser example_env (example_request\<lparr>body := JObj [(''email'', JNum 7)]\<rparr>) =
           Fail (no_descriptor
                  \<lparr>status := Some 400,
                   message := JStr ''email.toLowerCase is not a function'',
                   extraData := thrown\<rparr>))
   \<and> (\<exists>thrown. destructure_email JUndefined = Inl thrown
       \<and> isUser example_env (example_request\<lparr>body := JUndefined\<rparr>) =
           Fail (no_descriptor
                  \<lparr>status := Some 400,
                   message := JStr (''Cannot destructure property '' @ [CHR 0x27] @ ''email''
                                    @ [CHR 0x27] @ '' of '' @ [CHR 0x27] @ ''req.body''
                                    @ [CHR 0x27] @ '' as it is undefined.''),
                   extraData := thrown\<rparr>))
   \<and> rendered_status (isUser example_env example_request) = Some 400
   \<and> rendered_status (isUser example_env (example_request\<lparr>body := JObj [(''email'', JNum 7)]\<rparr>)) = Some 400
   \<and> rendered_status (isUser example_env (example_request\<lparr>body := JUndefined\<rparr>)) = Some 400"
  using isUser_without_email_fails_400 [where req = example_request and v = JUndefined
          and E = example_env]
        isUser_without_email_fails_400
          [where req = "example_request\<lparr>body := JObj [(''email'', JNum 7)]\<rparr>" and v = "JNum 7"
             and E = example_env and n = 7]
        isUser_without_email_fails_400 [where req = "example_request\<lparr>body := JUndefined\<rparr>"
          and E = example_env]
  by (auto simp: rendered_status_def destructure_email_def example_request_def TypeError_def
      no_descriptor_def)

end
